theory Spec2Isabelle
  imports Complex_Main
begin

section \<open>Python values and dictionaries\<close>

text \<open>
  The handlers of \<^verbatim>\<open>main.py\<close> build and return Python dictionaries whose values are
  \<^verbatim>\<open>None\<close>, strings, integers, floats, lists and nested dictionaries.

  The type parameter \<open>'f\<close> stands for Python's \<^verbatim>\<open>float\<close>. The only float operation
  of the program is the addition \<^verbatim>\<open>item.price + item.tax\<close>; it is written \<open>+\<close> and
  left uninterpreted (\<open>'f\<close> is any type with a \<open>+\<close>), so nothing is assumed about
  rounding. A \<open>string\<close> stands for a Python \<^verbatim>\<open>str\<close>, one \<open>char\<close> per code point
  (a \<open>char\<close> has 256 values, so the texts covered are those of code points below 256;
  every text that the source or a claim names is ASCII).
\<close>

datatype 'f py_value =
    PyNone
  | PyStr string
  | PyInt int
  | PyFloat 'f
  | PyList "'f py_value list"
  | PyDict "(string \<times> 'f py_value) list"

text \<open>
  A \<^verbatim>\<open>dict\<close> keeps its keys in insertion order and holds every key once, so it is
  an association list with distinct keys.
\<close>

type_synonym 'f py_dict = "(string \<times> 'f py_value) list"

text \<open>\<^verbatim>\<open>d[k] = v\<close>: an existing key keeps its place and takes the new value, a new
  key goes to the end.\<close>

fun setitem :: "string \<Rightarrow> 'v \<Rightarrow> (string \<times> 'v) list \<Rightarrow> (string \<times> 'v) list" where
  "setitem k v [] = [(k, v)]"
| "setitem k v ((k', v') # d) = (if k' = k then (k, v) # d else (k', v') # setitem k v d)"

text \<open>\<^verbatim>\<open>d.update(e)\<close>: the entries of \<open>e\<close> are stored into \<open>d\<close> one after the other.\<close>

fun update :: "(string \<times> 'v) list \<Rightarrow> (string \<times> 'v) list \<Rightarrow> (string \<times> 'v) list" where
  "update d [] = d"
| "update d ((k, v) # e) = update (setitem k v d) e"

text \<open>A dictionary display \<^verbatim>\<open>{k1: v1, ..., **e}\<close>: the entries are stored into an empty
  dictionary from left to right, a repeated key keeping its last value.\<close>

definition display :: "(string \<times> 'v) list \<Rightarrow> (string \<times> 'v) list" where
  "display entries = update [] entries"

text \<open>\<^verbatim>\<open>d.get(k)\<close> and \<^verbatim>\<open>list(d)\<close>.\<close>

definition getitem :: "(string \<times> 'v) list \<Rightarrow> string \<Rightarrow> 'v option" where
  "getitem d k = map_of d k"

definition keys :: "(string \<times> 'v) list \<Rightarrow> string list" where
  "keys d = map fst d"

section \<open>The request body: Item\<close>

text \<open>
  \<^verbatim>\<open>
  class Item(BaseModel):
      name: str
      description: Optional[str] = None
      price: float
      tax: Optional[float] = None
  \<close>
\<close>

record 'f Item =
  name :: string
  description :: "string option"
  price :: 'f
  tax :: "'f option"

text \<open>\<^verbatim>\<open>item.dict()\<close>: a new dictionary of the four fields, in the order of their
  declaration; an unset optional field is \<^verbatim>\<open>None\<close>.\<close>

definition dict :: "'f Item \<Rightarrow> 'f py_dict" where
  "dict item =
     [(''name'', PyStr (name item)),
      (''description'', (case description item of None \<Rightarrow> PyNone | Some d \<Rightarrow> PyStr d)),
      (''price'', PyFloat (price item)),
      (''tax'', (case tax item of None \<Rightarrow> PyNone | Some t \<Rightarrow> PyFloat t))]"

section \<open>The handlers\<close>

text \<open>The exception a handler can raise: adding \<^verbatim>\<open>None\<close> to a float.\<close>

datatype py_error = TypeError

text \<open>
  The source defines three functions called \<^verbatim>\<open>create_item\<close>, one per route; each
  is registered by its decorator before the next definition rebinds the name. They
  are told apart here by the route.

  \<^verbatim>\<open>
  @app.post("/items1/")
  async def create_item(item: Item):
      item_dict = item.dict()
      price_with_tax = item.price + item.tax
      item_dict.update({"price_with_tax": price_with_tax})
      return item_dict
  \<close>
\<close>

definition create_item_items1 :: "('f::plus) Item \<Rightarrow> py_error + 'f py_dict" where
  "create_item_items1 item =
     (let item_dict = dict item in
      case tax item of
        None \<Rightarrow> Inl TypeError
      | Some t \<Rightarrow>
          (let price_with_tax = price item + t in
           Inr (update item_dict (display [(''price_with_tax'', PyFloat price_with_tax)]))))"

text \<open>
  \<^verbatim>\<open>
  @app.put("/items2/{item_id}")
  async def create_item(item_id: int, item: Item):
      return {"item_id": item_id, **item.dict()}
  \<close>
\<close>

definition create_item_items2 :: "int \<Rightarrow> 'f Item \<Rightarrow> 'f py_dict" where
  "create_item_items2 item_id item = display ((''item_id'', PyInt item_id) # dict item)"

text \<open>
  \<^verbatim>\<open>
  @app.put("/items3/{item_id}")
  async def create_item(item_id: int, item: Item, q: Optional[str] = None):
      result = {"item_id": item_id, **item.dict()}
      if q:
          result.update({"q": q})
      return result
  \<close>
  \<^verbatim>\<open>if q\<close> is false for \<^verbatim>\<open>None\<close> and for the empty string.
\<close>

definition truthy :: "string option \<Rightarrow> bool" where
  "truthy q = (case q of None \<Rightarrow> False | Some s \<Rightarrow> s \<noteq> [])"

definition create_item_items3 :: "int \<Rightarrow> 'f Item \<Rightarrow> string option \<Rightarrow> 'f py_dict" where
  "create_item_items3 item_id item q =
     (let result = display ((''item_id'', PyInt item_id) # dict item) in
      case q of
        None \<Rightarrow> result
      | Some s \<Rightarrow> if truthy q then update result (display [(''q'', PyStr s)]) else result)"

text \<open>
  \<^verbatim>\<open>
  @app.get("/items4")
  async def read_items(q: Optional[str] = Query(..., max_length=50, min_length=3,
                                                regex="^fixedquery$")):
      results = {"items": [{"item_id": "Foo"}, {"item_id": "Bar"}]}
      if q:
          results.update({q: q})
      return results
  \<close>
\<close>

definition read_items :: "string option \<Rightarrow> 'f py_dict" where
  "read_items q =
     (let results = display [(''items'',
            PyList [PyDict (display [(''item_id'', PyStr ''Foo'')]),
                    PyDict (display [(''item_id'', PyStr ''Bar'')])])] in
      case q of
        None \<Rightarrow> results
      | Some s \<Rightarrow> if truthy q then update results (display [(s, PyStr s)]) else results)"

section \<open>Request validation\<close>

text \<open>
  The handlers run on arguments that the framework has already validated against the
  declarations of the source: the fields of \<^verbatim>\<open>Item\<close> and the \<^verbatim>\<open>Query(...)\<close> of
  \<^verbatim>\<open>read_items\<close>. A failed validation is answered with a list of errors, each with the
  location of the offending field (\<^verbatim>\<open>loc\<close>) and the kind of the failure. The checks
  are the ones these declarations ask for in the library whose interface the source
  uses (\<^verbatim>\<open>item.dict()\<close>, \<^verbatim>\<open>Query(regex=...)\<close>): required and optional fields, the
  length limits, and the pattern as a regular expression of Python.
\<close>

datatype error_type =
    missing
  | none_not_allowed
  | type_error_str
  | type_error_float
  | min_length_error nat
  | max_length_error nat
  | str_regex string

type_synonym validation_error = "string list \<times> error_type"

definition loc :: "validation_error \<Rightarrow> string list" where
  "loc e = fst e"

subsection \<open>The body\<close>

text \<open>
  What a JSON object holds for one declared field: the key is absent, its value is
  \<^verbatim>\<open>null\<close>, its value converts to the declared type (\<open>Value\<close> carries the converted
  value), or it does not (\<open>Invalid\<close>: an array where a number is declared, say). Which
  JSON values convert to \<^verbatim>\<open>str\<close> and \<^verbatim>\<open>float\<close> is the validation library's business
  and is not fixed here. Keys that \<^verbatim>\<open>Item\<close> does not declare are ignored.
\<close>

datatype 'a field_input = Absent | Null | Value 'a | Invalid

record 'f body =
  name_in :: "string field_input"
  description_in :: "string field_input"
  price_in :: "'f field_input"
  tax_in :: "'f field_input"

text \<open>A field declared without a default (\<^verbatim>\<open>name: str\<close>, \<^verbatim>\<open>price: float\<close>) is
  required and must not be \<^verbatim>\<open>null\<close>.\<close>

definition required :: "string \<Rightarrow> error_type \<Rightarrow> 'a field_input \<Rightarrow> validation_error + 'a" where
  "required field ty x =
     (case x of
        Absent \<Rightarrow> Inl ([''body'', field], missing)
      | Null \<Rightarrow> Inl ([''body'', field], none_not_allowed)
      | Value v \<Rightarrow> Inr v
      | Invalid \<Rightarrow> Inl ([''body'', field], ty))"

text \<open>A field declared \<^verbatim>\<open>Optional[...] = None\<close> may be left out or be \<^verbatim>\<open>null\<close>; both
  give \<^verbatim>\<open>None\<close>.\<close>

definition optional :: "string \<Rightarrow> error_type \<Rightarrow> 'a field_input \<Rightarrow> validation_error + 'a option" where
  "optional field ty x =
     (case x of
        Absent \<Rightarrow> Inr None
      | Null \<Rightarrow> Inr None
      | Value v \<Rightarrow> Inr (Some v)
      | Invalid \<Rightarrow> Inl ([''body'', field], ty))"

definition errors :: "validation_error + 'a \<Rightarrow> validation_error list" where
  "errors r = (case r of Inl e \<Rightarrow> [e] | Inr _ \<Rightarrow> [])"

text \<open>The fields are validated in the order of their declaration; every failing field
  contributes its error, and the Item is built only when there is none.\<close>

definition validate_Item :: "'f body \<Rightarrow> validation_error list + 'f Item" where
  "validate_Item b =
     (let n = required ''name'' type_error_str (name_in b);
          d = optional ''description'' type_error_str (description_in b);
          p = required ''price'' type_error_float (price_in b);
          t = optional ''tax'' type_error_float (tax_in b)
      in case (n, d, p, t) of
           (Inr n', Inr d', Inr p', Inr t') \<Rightarrow>
             Inr \<lparr>name = n', description = d', price = p', tax = t'\<rparr>
         | _ \<Rightarrow> Inl (errors n @ errors d @ errors p @ errors t))"

subsection \<open>The query parameter of /items4\<close>

text \<open>
  \<^verbatim>\<open>regex="^fixedquery$"\<close> is a pattern of Python's \<^verbatim>\<open>re\<close> module, applied with
  \<^verbatim>\<open>re.match\<close>: the match starts at the beginning of the string and need not reach
  its end. Of the pattern language, the anchors \<^verbatim>\<open>^\<close> and \<^verbatim>\<open>$\<close> and literal characters
  are modelled, which is all that this pattern uses.
\<close>

datatype re_token = Bol | Eol | Lit char

fun re_parse :: "string \<Rightarrow> re_token list" where
  "re_parse [] = []"
| "re_parse (c # cs) =
     (if c = CHR ''^'' then Bol else if c = CHR ''$'' then Eol else Lit c) # re_parse cs"

text \<open>
  \<open>re_run ts at_start s\<close>: the tokens \<open>ts\<close> match a prefix of the rest \<open>s\<close> of the
  subject, \<open>at_start\<close> telling whether \<open>s\<close> is the whole subject. Without the
  \<^verbatim>\<open>MULTILINE\<close> flag, \<^verbatim>\<open>^\<close> matches at the start of the string only, and \<^verbatim>\<open>$\<close> matches
  at the end of the string and just before a newline that ends the string.
\<close>

fun re_run :: "re_token list \<Rightarrow> bool \<Rightarrow> string \<Rightarrow> bool" where
  "re_run [] at_start s = True"
| "re_run (Bol # ts) at_start s = (at_start \<and> re_run ts at_start s)"
| "re_run (Eol # ts) at_start s = ((s = [] \<or> s = [CHR 0x0A]) \<and> re_run ts at_start s)"
| "re_run (Lit c # ts) at_start [] = False"
| "re_run (Lit c # ts) at_start (x # s) = (x = c \<and> re_run ts False s)"

definition re_match :: "string \<Rightarrow> string \<Rightarrow> bool" where
  "re_match pattern s = re_run (re_parse pattern) True s"

text \<open>\<^verbatim>\<open>Query(..., max_length=50, min_length=3, regex="^fixedquery$")\<close>: the default
  \<^verbatim>\<open>...\<close> makes the parameter required.\<close>

definition max_length :: nat where
  "max_length = 50"

definition min_length :: nat where
  "min_length = 3"

definition regex :: string where
  "regex = ''^fixedquery$''"

text \<open>The query string either has no \<^verbatim>\<open>q\<close> (\<open>None\<close>) or gives it a text; the length
  limits are checked before the pattern.\<close>

definition validate_q :: "string option \<Rightarrow> validation_error + string" where
  "validate_q q =
     (case q of
        None \<Rightarrow> Inl ([''query'', ''q''], missing)
      | Some s \<Rightarrow>
          if length s < min_length then Inl ([''query'', ''q''], min_length_error min_length)
          else if max_length < length s then Inl ([''query'', ''q''], max_length_error max_length)
          else if \<not> re_match regex s then Inl ([''query'', ''q''], str_regex regex)
          else Inr s)"

section \<open>The routes\<close>

text \<open>
  The outcome of a request: the validation errors (status 422), the exception the
  handler raised (status 500: no handler catches anything), or the dictionary the
  handler returned (status 200). Writing that dictionary as JSON is the framework's
  work and is not modelled. The path parameter \<^verbatim>\<open>item_id: int\<close> is taken as already
  converted to an integer.
\<close>

datatype 'f response =
    Unprocessable "validation_error list"
  | InternalServerError py_error
  | OK "'f py_dict"

definition post_items1 :: "('f::plus) body \<Rightarrow> 'f response" where
  "post_items1 b =
     (case validate_Item b of
        Inl errs \<Rightarrow> Unprocessable errs
      | Inr item \<Rightarrow>
          (case create_item_items1 item of
             Inl e \<Rightarrow> InternalServerError e
           | Inr r \<Rightarrow> OK r))"

definition put_items2 :: "int \<Rightarrow> 'f body \<Rightarrow> 'f response" where
  "put_items2 item_id b =
     (case validate_Item b of
        Inl errs \<Rightarrow> Unprocessable errs
      | Inr item \<Rightarrow> OK (create_item_items2 item_id item))"

definition put_items3 :: "int \<Rightarrow> 'f body \<Rightarrow> string option \<Rightarrow> 'f response" where
  "put_items3 item_id b q =
     (case validate_Item b of
        Inl errs \<Rightarrow> Unprocessable errs
      | Inr item \<Rightarrow> OK (create_item_items3 item_id item q))"

definition get_items4 :: "string option \<Rightarrow> 'f response" where
  "get_items4 q =
     (case validate_q q of
        Inl e \<Rightarrow> Unprocessable [e]
      | Inr s \<Rightarrow> OK (read_items (Some s)))"


section \<open>The handlers as programs on the heap\<close>

text \<open>
  The handlers mutate dictionaries in place (\<^verbatim>\<open>item_dict.update(...)\<close>,
  \<^verbatim>\<open>result.update(...)\<close>, \<^verbatim>\<open>results.update(...)\<close>). Whether a request can change what a
  later request sees depends on which objects those are, so the handlers are also
  given as programs on a heap of dictionary objects: the object at address \<open>a\<close> is
  \<open>h ! a\<close>, a new object takes the next address, and an object is never freed.
  \<^verbatim>\<open>main.py\<close> has no module-level dictionary, and no handler reads or assigns a
  global: the heap is all the state there is.
\<close>

type_synonym 'f heap = "'f py_dict list"

text \<open>A dictionary display and \<^verbatim>\<open>item.dict()\<close> create a new object.\<close>

definition new_dict :: "'f py_dict \<Rightarrow> 'f heap \<Rightarrow> nat \<times> 'f heap" where
  "new_dict d h = (length h, h @ [d])"

text \<open>\<^verbatim>\<open>a.update(e)\<close> changes the object at address \<open>a\<close> and no other.\<close>

definition update_at :: "nat \<Rightarrow> 'f py_dict \<Rightarrow> 'f heap \<Rightarrow> 'f heap" where
  "update_at a e h = h[a := update (h ! a) e]"

definition create_item_items1_heap ::
    "('f::plus) Item \<Rightarrow> 'f heap \<Rightarrow> (py_error + nat) \<times> 'f heap" where
  "create_item_items1_heap item h =
     (let (item_dict, h1) = new_dict (dict item) h in
      case tax item of
        None \<Rightarrow> (Inl TypeError, h1)
      | Some t \<Rightarrow>
          (let price_with_tax = price item + t;
               h2 = update_at item_dict (display [(''price_with_tax'', PyFloat price_with_tax)]) h1
           in (Inr item_dict, h2)))"

definition create_item_items2_heap :: "int \<Rightarrow> 'f Item \<Rightarrow> 'f heap \<Rightarrow> nat \<times> 'f heap" where
  "create_item_items2_heap item_id item h =
     new_dict (display ((''item_id'', PyInt item_id) # dict item)) h"

definition create_item_items3_heap ::
    "int \<Rightarrow> 'f Item \<Rightarrow> string option \<Rightarrow> 'f heap \<Rightarrow> nat \<times> 'f heap" where
  "create_item_items3_heap item_id item q h =
     (let (result, h1) = new_dict (display ((''item_id'', PyInt item_id) # dict item)) h in
      case q of
        None \<Rightarrow> (result, h1)
      | Some s \<Rightarrow>
          if truthy q then (result, update_at result (display [(''q'', PyStr s)]) h1)
          else (result, h1))"

definition read_items_heap :: "string option \<Rightarrow> 'f heap \<Rightarrow> nat \<times> 'f heap" where
  "read_items_heap q h =
     (let (results, h1) = new_dict (display [(''items'',
            PyList [PyDict (display [(''item_id'', PyStr ''Foo'')]),
                    PyDict (display [(''item_id'', PyStr ''Bar'')])])]) h in
      case q of
        None \<Rightarrow> (results, h1)
      | Some s \<Rightarrow>
          if truthy q then (results, update_at results (display [(s, PyStr s)]) h1)
          else (results, h1))"

text \<open>A request names its route and carries the route's inputs.\<close>

datatype 'f request =
    PostItems1 "'f body"
  | PutItems2 int "'f body"
  | PutItems3 int "'f body" "string option"
  | GetItems4 "string option"

text \<open>Serving one request on the heap \<open>h\<close>: the arguments are validated, the handler of
  the route runs on the heap, and the response is read from the object it returns.\<close>

definition serve :: "('f::plus) request \<Rightarrow> 'f heap \<Rightarrow> 'f response \<times> 'f heap" where
  "serve req h =
     (case req of
        PostItems1 b \<Rightarrow>
          (case validate_Item b of
             Inl errs \<Rightarrow> (Unprocessable errs, h)
           | Inr item \<Rightarrow>
               (case create_item_items1_heap item h of
                  (Inl e, h') \<Rightarrow> (InternalServerError e, h')
                | (Inr a, h') \<Rightarrow> (OK (h' ! a), h')))
      | PutItems2 item_id b \<Rightarrow>
          (case validate_Item b of
             Inl errs \<Rightarrow> (Unprocessable errs, h)
           | Inr item \<Rightarrow>
               (case create_item_items2_heap item_id item h of (a, h') \<Rightarrow> (OK (h' ! a), h')))
      | PutItems3 item_id b q \<Rightarrow>
          (case validate_Item b of
             Inl errs \<Rightarrow> (Unprocessable errs, h)
           | Inr item \<Rightarrow>
               (case create_item_items3_heap item_id item q h of (a, h') \<Rightarrow> (OK (h' ! a), h')))
      | GetItems4 q \<Rightarrow>
          (case validate_q q of
             Inl e \<Rightarrow> (Unprocessable [e], h)
           | Inr s \<Rightarrow>
               (case read_items_heap (Some s) h of (a, h') \<Rightarrow> (OK (h' ! a), h'))))"

text \<open>Serving requests one after the other, each on the heap the one before left.\<close>

fun serve_all :: "('f::plus) request list \<Rightarrow> 'f heap \<Rightarrow> 'f response list \<times> 'f heap" where
  "serve_all [] h = ([], h)"
| "serve_all (req # reqs) h =
     (case serve req h of (r, h1) \<Rightarrow>
        (case serve_all reqs h1 of (rs, h2) \<Rightarrow> (r # rs, h2)))"

text \<open>The response of a request as a function of the request alone.\<close>

definition respond :: "('f::plus) request \<Rightarrow> 'f response" where
  "respond req =
     (case req of
        PostItems1 b \<Rightarrow> post_items1 b
      | PutItems2 item_id b \<Rightarrow> put_items2 item_id b
      | PutItems3 item_id b q \<Rightarrow> put_items3 item_id b q
      | GetItems4 q \<Rightarrow> get_items4 q)"

section \<open>Facts about the handlers\<close>

lemma dict_keys: "keys (dict item) = [''name'', ''description'', ''price'', ''tax'']"
  by (simp add: dict_def keys_def)

lemma items1_value:
  "tax item = Some t \<Longrightarrow>
   create_item_items1 item = Inr (dict item @ [(''price_with_tax'', PyFloat (price item + t))])"
  by (simp add: create_item_items1_def dict_def display_def)

lemma items2_value:
  "create_item_items2 item_id item = (''item_id'', PyInt item_id) # dict item"
  by (simp add: create_item_items2_def dict_def display_def)

text \<open>
  C1. For every Item whose tax is present, the handler of POST /items1/ returns a
  dictionary in which \<^verbatim>\<open>price_with_tax\<close> is the float sum \<^verbatim>\<open>item.price + item.tax\<close>,
  next to the four fields of the Item with their own values; the route answers with
  that dictionary for every body that validates as the Item.
\<close>

theorem items1_price_with_tax:
  assumes "tax item = Some t"
  shows "\<exists>r. create_item_items1 item = Inr r
           \<and> getitem r ''price_with_tax'' = Some (PyFloat (price item + t))
           \<and> getitem r ''name'' = Some (PyStr (name item))
           \<and> getitem r ''description''
               = Some (case description item of None \<Rightarrow> PyNone | Some d \<Rightarrow> PyStr d)
           \<and> getitem r ''price'' = Some (PyFloat (price item))
           \<and> getitem r ''tax'' = Some (PyFloat t)
           \<and> (\<forall>b. validate_Item b = Inr item \<longrightarrow> post_items1 b = OK r)"
  using assms by (simp add: items1_value getitem_def dict_def post_items1_def)

theorem items1_price_with_tax_witness:
  "\<exists>r. post_items1 \<lparr>name_in = Value ''Foo'', description_in = Absent, price_in = Value (10 :: real),
                     tax_in = Value (3 / 2)\<rparr> = OK r
     \<and> getitem r ''price_with_tax'' = Some (PyFloat (23 / 2))
     \<and> getitem r ''name'' = Some (PyStr ''Foo'')
     \<and> getitem r ''description'' = Some PyNone
     \<and> getitem r ''price'' = Some (PyFloat 10)
     \<and> getitem r ''tax'' = Some (PyFloat (3 / 2))"
proof -
  have v: "validate_Item \<lparr>name_in = Value ''Foo'', description_in = Absent,
                          price_in = Value (10 :: real), tax_in = Value (3 / 2)\<rparr>
      = Inr \<lparr>name = ''Foo'', description = None, price = 10, tax = Some (3 / 2)\<rparr>"
    by (simp add: validate_Item_def required_def optional_def)
  from items1_price_with_tax
    [of "\<lparr>name = ''Foo'', description = None, price = 10, tax = Some (3 / 2 :: real)\<rparr>" "3 / 2"]
  obtain r where
    "getitem r ''price_with_tax'' = Some (PyFloat (10 + 3 / 2 :: real))"
    "getitem r ''name'' = Some (PyStr ''Foo'')"
    "getitem r ''description'' = Some PyNone"
    "getitem r ''price'' = Some (PyFloat 10)"
    "getitem r ''tax'' = Some (PyFloat (3 / 2))"
    "\<forall>b. validate_Item b = Inr \<lparr>name = ''Foo'', description = None, price = 10,
                                   tax = Some (3 / 2 :: real)\<rparr> \<longrightarrow> post_items1 b = OK r"
    by auto
  with v show ?thesis
    by auto
qed

lemma items3_value:
  "create_item_items3 item_id item q =
     (if truthy q then (''item_id'', PyInt item_id) # dict item @ [(''q'', PyStr (the q))]
      else (''item_id'', PyInt item_id) # dict item)"
  by (simp add: create_item_items3_def dict_def display_def truthy_def split: option.splits)

lemma items1_no_tax: "tax item = None \<Longrightarrow> create_item_items1 item = Inl TypeError"
  by (simp add: create_item_items1_def)

lemma validate_Item_Inr:
  "validate_Item b = Inr item \<longleftrightarrow>
     (\<exists>n p. name_in b = Value n \<and> price_in b = Value p \<and> description_in b \<noteq> Invalid
        \<and> tax_in b \<noteq> Invalid
        \<and> item = \<lparr>name = n,
                   description = (case description_in b of Value d \<Rightarrow> Some d | _ \<Rightarrow> None),
                   price = p,
                   tax = (case tax_in b of Value t \<Rightarrow> Some t | _ \<Rightarrow> None)\<rparr>)"
  by (cases "name_in b"; cases "description_in b"; cases "price_in b"; cases "tax_in b")
     (auto simp: validate_Item_def required_def optional_def errors_def)

text \<open>
  C2. For every body that validates as an Item and whose tax is left out or is null,
  the Item's tax is \<^verbatim>\<open>None\<close>, the handler of POST /items1/ raises the TypeError of
  \<^verbatim>\<open>item.price + item.tax\<close>, and nothing recovers from it: the route answers with that
  exception, not with a dictionary.
\<close>

theorem items1_tax_absent_fails:
  assumes "validate_Item b = Inr item"
    and "tax_in b = Absent \<or> tax_in b = Null"
  shows "tax item = None \<and> create_item_items1 item = Inl TypeError
           \<and> post_items1 b = InternalServerError TypeError"
proof -
  from assms have t: "tax item = None"
    by (auto simp: validate_Item_Inr)
  then have "create_item_items1 item = Inl TypeError"
    by (rule items1_no_tax)
  with t assms(1) show ?thesis
    by (simp add: post_items1_def)
qed

theorem items1_tax_absent_fails_witness:
  "post_items1 \<lparr>name_in = Value ''Foo'', description_in = Absent, price_in = Value (10 :: real),
                 tax_in = Absent\<rparr> = InternalServerError TypeError
   \<and> create_item_items1 \<lparr>name = ''Foo'', description = None, price = (10 :: real), tax = None\<rparr>
       = Inl TypeError"
  using items1_tax_absent_fails
    [of "\<lparr>name_in = Value ''Foo'', description_in = Absent, price_in = Value (10 :: real),
           tax_in = Absent\<rparr>"
        "\<lparr>name = ''Foo'', description = None, price = (10 :: real), tax = None\<rparr>"]
  by (simp add: validate_Item_def required_def optional_def)

text \<open>
  C5. For every integer identifier and every Item, the handler of PUT /items2/{item_id}
  returns the dictionary that holds the identifier under \<^verbatim>\<open>item_id\<close>, followed by
  \<^verbatim>\<open>name\<close>, \<^verbatim>\<open>description\<close>, \<^verbatim>\<open>price\<close> and \<^verbatim>\<open>tax\<close> with the Item's own values (an unset
  optional field as \<^verbatim>\<open>None\<close>), and nothing else; the route answers with it for every
  body that validates as that Item.
\<close>

theorem items2_item_id_and_fields:
  "create_item_items2 item_id item =
     [(''item_id'', PyInt item_id),
      (''name'', PyStr (name item)),
      (''description'', (case description item of None \<Rightarrow> PyNone | Some d \<Rightarrow> PyStr d)),
      (''price'', PyFloat (price item)),
      (''tax'', (case tax item of None \<Rightarrow> PyNone | Some t \<Rightarrow> PyFloat t))]
   \<and> getitem (create_item_items2 item_id item) ''item_id'' = Some (PyInt item_id)
   \<and> getitem (create_item_items2 item_id item) ''name'' = Some (PyStr (name item))
   \<and> getitem (create_item_items2 item_id item) ''description''
       = Some (case description item of None \<Rightarrow> PyNone | Some d \<Rightarrow> PyStr d)
   \<and> getitem (create_item_items2 item_id item) ''price'' = Some (PyFloat (price item))
   \<and> getitem (create_item_items2 item_id item) ''tax''
       = Some (case tax item of None \<Rightarrow> PyNone | Some t \<Rightarrow> PyFloat t)
   \<and> (\<forall>b. validate_Item b = Inr item \<longrightarrow>
          put_items2 item_id b = OK (create_item_items2 item_id item))"
  by (simp add: items2_value getitem_def dict_def put_items2_def)

theorem items2_item_id_and_fields_witness:
  "put_items2 5 \<lparr>name_in = Value ''Bar'', description_in = Value ''a bar'',
                  price_in = Value (10 :: real), tax_in = Null\<rparr>
     = OK [(''item_id'', PyInt 5), (''name'', PyStr ''Bar''), (''description'', PyStr ''a bar''),
           (''price'', PyFloat 10), (''tax'', PyNone)]"
proof -
  have v: "validate_Item \<lparr>name_in = Value ''Bar'', description_in = Value ''a bar'',
                          price_in = Value (10 :: real), tax_in = Null\<rparr>
      = Inr \<lparr>name = ''Bar'', description = Some ''a bar'', price = 10, tax = None\<rparr>"
    by (simp add: validate_Item_def required_def optional_def)
  from items2_item_id_and_fields
    [of 5 "\<lparr>name = ''Bar'', description = Some ''a bar'', price = (10 :: real), tax = None\<rparr>"]
  have "create_item_items2 5
          \<lparr>name = ''Bar'', description = Some ''a bar'', price = (10 :: real), tax = None\<rparr>
        = [(''item_id'', PyInt 5), (''name'', PyStr ''Bar''), (''description'', PyStr ''a bar''),
           (''price'', PyFloat 10), (''tax'', PyNone)]"
    and "\<forall>b. validate_Item b
            = Inr \<lparr>name = ''Bar'', description = Some ''a bar'', price = (10 :: real), tax = None\<rparr>
          \<longrightarrow> put_items2 5 b = OK (create_item_items2 5
                \<lparr>name = ''Bar'', description = Some ''a bar'', price = (10 :: real), tax = None\<rparr>)"
    by simp_all
  with v show ?thesis
    by simp
qed

text \<open>
  C4. For every integer identifier, every Item and every optional query text \<open>q\<close>, the
  handler of PUT /items3/{item_id} returns the identifier under \<^verbatim>\<open>item_id\<close>, followed
  by \<^verbatim>\<open>name\<close>, \<^verbatim>\<open>description\<close>, \<^verbatim>\<open>price\<close> and \<^verbatim>\<open>tax\<close> with the Item's own values (an
  unset optional field as \<^verbatim>\<open>None\<close>); the key \<^verbatim>\<open>q\<close> follows exactly when \<open>q\<close> is present
  and not empty, and then its value is \<open>q\<close>. The route answers with that dictionary
  for every body that validates as that Item.
\<close>

theorem items3_q_key:
  "create_item_items3 item_id item q =
     [(''item_id'', PyInt item_id),
      (''name'', PyStr (name item)),
      (''description'', (case description item of None \<Rightarrow> PyNone | Some d \<Rightarrow> PyStr d)),
      (''price'', PyFloat (price item)),
      (''tax'', (case tax item of None \<Rightarrow> PyNone | Some t \<Rightarrow> PyFloat t))]
     @ (case q of None \<Rightarrow> [] | Some s \<Rightarrow> if s = [] then [] else [(''q'', PyStr s)])
   \<and> getitem (create_item_items3 item_id item q) ''item_id'' = Some (PyInt item_id)
   \<and> getitem (create_item_items3 item_id item q) ''name'' = Some (PyStr (name item))
   \<and> getitem (create_item_items3 item_id item q) ''description''
       = Some (case description item of None \<Rightarrow> PyNone | Some d \<Rightarrow> PyStr d)
   \<and> getitem (create_item_items3 item_id item q) ''price'' = Some (PyFloat (price item))
   \<and> getitem (create_item_items3 item_id item q) ''tax''
       = Some (case tax item of None \<Rightarrow> PyNone | Some t \<Rightarrow> PyFloat t)
   \<and> (''q'' \<in> set (keys (create_item_items3 item_id item q)) \<longleftrightarrow> (\<exists>s. q = Some s \<and> s \<noteq> []))
   \<and> getitem (create_item_items3 item_id item q) ''q''
        = (case q of None \<Rightarrow> None | Some s \<Rightarrow> if s = [] then None else Some (PyStr s))
   \<and> (\<forall>b. validate_Item b = Inr item \<longrightarrow>
          put_items3 item_id b q = OK (create_item_items3 item_id item q))"
  by (cases q) (auto simp: items3_value getitem_def keys_def dict_def truthy_def put_items3_def)

theorem items3_q_key_witness:
  "put_items3 7 \<lparr>name_in = Value ''Bar'', description_in = Value ''a bar'',
                  price_in = Value (10 :: real), tax_in = Absent\<rparr> (Some ''hello'')
     = OK [(''item_id'', PyInt 7), (''name'', PyStr ''Bar''), (''description'', PyStr ''a bar''),
           (''price'', PyFloat 10), (''tax'', PyNone), (''q'', PyStr ''hello'')]
   \<and> ''q'' \<notin> set (keys (create_item_items3 7
         \<lparr>name = ''Bar'', description = Some ''a bar'', price = (10 :: real), tax = None\<rparr> None))
   \<and> ''q'' \<notin> set (keys (create_item_items3 7
         \<lparr>name = ''Bar'', description = Some ''a bar'', price = (10 :: real), tax = None\<rparr>
         (Some [])))"
proof -
  let ?item = "\<lparr>name = ''Bar'', description = Some ''a bar'', price = (10 :: real), tax = None\<rparr>"
  have v: "validate_Item \<lparr>name_in = Value ''Bar'', description_in = Value ''a bar'',
                          price_in = Value (10 :: real), tax_in = Absent\<rparr> = Inr ?item"
    by (simp add: validate_Item_def required_def optional_def)
  from items3_q_key [of 7 ?item "Some ''hello''"]
  have a: "create_item_items3 7 ?item (Some ''hello'')
        = [(''item_id'', PyInt 7), (''name'', PyStr ''Bar''), (''description'', PyStr ''a bar''),
           (''price'', PyFloat 10), (''tax'', PyNone), (''q'', PyStr ''hello'')]"
    and b: "\<forall>b. validate_Item b = Inr ?item
          \<longrightarrow> put_items3 7 b (Some ''hello'') = OK (create_item_items3 7 ?item (Some ''hello''))"
    by simp_all
  from items3_q_key [of 7 ?item None]
  have c: "''q'' \<notin> set (keys (create_item_items3 7 ?item None))"
    by blast
  from items3_q_key [of 7 ?item "Some []"]
  have d: "''q'' \<notin> set (keys (create_item_items3 7 ?item (Some [])))"
    by blast
  from v a b c d show ?thesis
    by simp
qed

text \<open>
  C9. For every body that validates as an Item with a tax, the response of
  POST /items1/ has exactly the five keys \<^verbatim>\<open>name\<close>, \<^verbatim>\<open>description\<close>, \<^verbatim>\<open>price\<close>, \<^verbatim>\<open>tax\<close> and
  \<^verbatim>\<open>price_with_tax\<close>; a description that the request leaves out is in the response
  with the value \<^verbatim>\<open>None\<close> (JSON null).
\<close>

theorem items1_five_keys:
  assumes "validate_Item b = Inr item"
    and "tax item = Some t"
  shows "\<exists>r. post_items1 b = OK r
           \<and> keys r = [''name'', ''description'', ''price'', ''tax'', ''price_with_tax'']
           \<and> (description_in b = Absent \<longrightarrow> getitem r ''description'' = Some PyNone)"
proof -
  let ?r = "dict item @ [(''price_with_tax'', PyFloat (price item + t))]"
  from assms(2) have "create_item_items1 item = Inr ?r"
    by (rule items1_value)
  with assms(1) have "post_items1 b = OK ?r"
    by (simp add: post_items1_def)
  moreover have "keys ?r = [''name'', ''description'', ''price'', ''tax'', ''price_with_tax'']"
    by (simp add: keys_def dict_def)
  moreover have "description_in b = Absent \<longrightarrow> getitem ?r ''description'' = Some PyNone"
    using assms(1) by (auto simp: validate_Item_Inr getitem_def dict_def)
  ultimately show ?thesis
    by blast
qed

theorem items1_five_keys_witness:
  "\<exists>r. post_items1 \<lparr>name_in = Value ''Foo'', description_in = Absent, price_in = Value (10 :: real),
                     tax_in = Value (3 / 2)\<rparr> = OK r
     \<and> keys r = [''name'', ''description'', ''price'', ''tax'', ''price_with_tax'']
     \<and> getitem r ''description'' = Some PyNone"
  using items1_five_keys
    [of "\<lparr>name_in = Value ''Foo'', description_in = Absent, price_in = Value (10 :: real),
           tax_in = Value (3 / 2)\<rparr>"
        "\<lparr>name = ''Foo'', description = None, price = (10 :: real), tax = Some (3 / 2)\<rparr>"
        "3 / 2"]
  by (simp add: validate_Item_def required_def optional_def)

section \<open>Facts about validation\<close>

lemma re_run_Lit: "re_run (Lit c # ts) at_start s = (\<exists>t. s = c # t \<and> re_run ts False t)"
  by (cases s) auto

lemma regex_tokens:
  "re_parse regex =
     [Bol, Lit CHR ''f'', Lit CHR ''i'', Lit CHR ''x'', Lit CHR ''e'', Lit CHR ''d'',
      Lit CHR ''q'', Lit CHR ''u'', Lit CHR ''e'', Lit CHR ''r'', Lit CHR ''y'', Eol]"
  by (simp add: regex_def)

text \<open>The pattern matches \<^verbatim>\<open>fixedquery\<close> and, because of \<^verbatim>\<open>$\<close>, the same text
  followed by one newline; it matches nothing else.\<close>

lemma re_match_regex:
  "re_match regex s \<longleftrightarrow> s = ''fixedquery'' \<or> s = ''fixedquery\<newline>''"
  unfolding re_match_def regex_tokens
  by (auto simp: re_run_Lit)

lemma validate_q_Inr:
  "validate_q q = Inr s \<longleftrightarrow>
     q = Some s \<and> min_length \<le> length s \<and> length s \<le> max_length \<and> re_match regex s"
  by (auto simp: validate_q_def split: option.splits)

lemma validate_q_Inl:
  "(\<exists>e. validate_q q = Inl e) \<longleftrightarrow>
     q = None \<or> (\<exists>s. q = Some s \<and> (length s < min_length \<or> max_length < length s
                                      \<or> \<not> re_match regex s))"
  by (auto simp: validate_q_def split: option.splits)

lemma validate_q_loc: "validate_q q = Inl e \<Longrightarrow> loc e = [''query'', ''q'']"
  by (auto simp: validate_q_def loc_def split: option.splits if_splits)

lemma validate_q_accepts:
  "validate_q q = Inr s \<longleftrightarrow>
     q = Some s \<and> (s = ''fixedquery'' \<or> s = ''fixedquery\<newline>'')"
  by (auto simp: validate_q_Inr re_match_regex min_length_def max_length_def)

lemma read_items_value:
  "s \<noteq> ''items'' \<Longrightarrow> s \<noteq> [] \<Longrightarrow>
   read_items (Some s) =
     [(''items'', PyList [PyDict [(''item_id'', PyStr ''Foo'')],
                          PyDict [(''item_id'', PyStr ''Bar'')]]),
      (s, PyStr s)]"
  by (simp add: read_items_def display_def truthy_def)

lemma read_items_sets_q: "s \<noteq> [] \<Longrightarrow> getitem (read_items (Some s)) s = Some (PyStr s)"
  by (simp add: read_items_def display_def truthy_def getitem_def)

text \<open>
  C3. GET /items4 answers with a validation error located at the query parameter
  \<^verbatim>\<open>q\<close> exactly when \<open>q\<close> is missing, shorter than 3, longer than 50 or not matched by
  the pattern \<^verbatim>\<open>^fixedquery$\<close>, and with a result otherwise. \<^verbatim>\<open>fixedquery\<close> succeeds,
  \<^verbatim>\<open>ab\<close> is too short and \<^verbatim>\<open>notmatching\<close> fails the pattern.
\<close>

theorem items4_validation_error:
  "((\<exists>e. get_items4 q = (Unprocessable [e] :: 'f response) \<and> loc e = [''query'', ''q''])
      \<longleftrightarrow> q = None \<or> (\<exists>s. q = Some s \<and> (length s < 3 \<or> 50 < length s
                                         \<or> \<not> re_match ''^fixedquery$'' s)))
   \<and> ((\<exists>r. get_items4 q = (OK r :: 'f response))
      \<longleftrightarrow> (\<exists>s. q = Some s \<and> 3 \<le> length s \<and> length s \<le> 50 \<and> re_match ''^fixedquery$'' s))
   \<and> (\<exists>r. get_items4 (Some ''fixedquery'') = (OK r :: 'f response)
          \<and> getitem r ''fixedquery'' = Some (PyStr ''fixedquery''))
   \<and> get_items4 (Some ''ab'') = (Unprocessable [([''query'', ''q''], min_length_error 3)] :: 'f response)
   \<and> get_items4 (Some ''notmatching'')
        = (Unprocessable [([''query'', ''q''], str_regex ''^fixedquery$'')] :: 'f response)"
proof -
  have err: "(\<exists>e. get_items4 q = (Unprocessable [e] :: 'f response) \<and> loc e = [''query'', ''q''])
      \<longleftrightarrow> (\<exists>e. validate_q q = Inl e)"
    by (auto simp: get_items4_def validate_q_loc split: sum.splits)
  have ok: "(\<exists>r. get_items4 q = (OK r :: 'f response)) \<longleftrightarrow> (\<exists>s. validate_q q = Inr s)"
    by (auto simp: get_items4_def split: sum.splits)
  have c1: "(\<exists>e. get_items4 q = (Unprocessable [e] :: 'f response) \<and> loc e = [''query'', ''q''])
      \<longleftrightarrow> q = None \<or> (\<exists>s. q = Some s \<and> (length s < 3 \<or> 50 < length s
                                         \<or> \<not> re_match ''^fixedquery$'' s))"
    unfolding err validate_q_Inl by (simp add: min_length_def max_length_def regex_def)
  have c2: "(\<exists>r. get_items4 q = (OK r :: 'f response))
      \<longleftrightarrow> (\<exists>s. q = Some s \<and> 3 \<le> length s \<and> length s \<le> 50 \<and> re_match ''^fixedquery$'' s)"
    unfolding ok validate_q_Inr by (simp add: min_length_def max_length_def regex_def)
  have v: "validate_q (Some ''fixedquery'') = Inr ''fixedquery''"
    by (simp add: validate_q_accepts)
  have c3: "\<exists>r. get_items4 (Some ''fixedquery'') = (OK r :: 'f response)
          \<and> getitem r ''fixedquery'' = Some (PyStr ''fixedquery'')"
    by (simp add: get_items4_def v read_items_sets_q)
  have c4: "get_items4 (Some ''ab'')
      = (Unprocessable [([''query'', ''q''], min_length_error 3)] :: 'f response)"
    by (simp add: get_items4_def validate_q_def min_length_def)
  have "\<not> re_match regex ''notmatching''"
    by (simp add: re_match_regex)
  then have c5: "get_items4 (Some ''notmatching'')
      = (Unprocessable [([''query'', ''q''], str_regex ''^fixedquery$'')] :: 'f response)"
    by (simp add: get_items4_def validate_q_def min_length_def max_length_def)
       (simp add: regex_def)
  from c1 c2 c3 c4 c5 show ?thesis
    by blast
qed

theorem items4_validation_error_witness:
  "(\<exists>e. get_items4 None = (Unprocessable [e] :: real response) \<and> loc e = [''query'', ''q''])
   \<and> (\<exists>r. get_items4 (Some ''fixedquery'') = (OK r :: real response))"
  using items4_validation_error [of None, where 'f = real]
  by auto

text \<open>
  C6. Whenever GET /items4 succeeds, the result holds the fixed list of two items
  under \<^verbatim>\<open>items\<close> and one more entry whose key is the text of \<open>q\<close> itself and whose
  value is that text, as \<^verbatim>\<open>results.update({q: q})\<close> stores it; there is no key \<^verbatim>\<open>q\<close>.
\<close>

theorem items4_result:
  assumes "get_items4 q = OK r"
  shows "\<exists>s. q = Some s
           \<and> r = [(''items'', PyList [PyDict [(''item_id'', PyStr ''Foo'')],
                                       PyDict [(''item_id'', PyStr ''Bar'')]]),
                  (s, PyStr s)]
           \<and> getitem r s = Some (PyStr s)
           \<and> getitem r ''q'' = None
           \<and> getitem (read_items (Some s)) s = Some (PyStr s)"
proof -
  from assms obtain s where v: "validate_q q = Inr s" and r: "r = read_items (Some s)"
    by (auto simp: get_items4_def split: sum.splits)
  from v have q: "q = Some s" and s: "s = ''fixedquery'' \<or> s = ''fixedquery\<newline>''"
    by (simp_all add: validate_q_accepts)
  from s have ne: "s \<noteq> ''items''" "s \<noteq> []" "s \<noteq> ''q''"
    by auto
  from ne(1,2) have val: "read_items (Some s) =
     [(''items'', PyList [PyDict [(''item_id'', PyStr ''Foo'')],
                          PyDict [(''item_id'', PyStr ''Bar'')]]),
      (s, PyStr s)]"
    by (rule read_items_value)
  from ne(3) have "getitem (read_items (Some s)) ''q'' = None"
    unfolding val by (simp add: getitem_def)
  with r have nq: "getitem r ''q'' = None"
    by simp
  from ne(2) have qs: "getitem (read_items (Some s)) s = Some (PyStr s)"
    by (rule read_items_sets_q)
  with r have rs: "getitem r s = Some (PyStr s)"
    by simp
  from r val have "r = [(''items'', PyList [PyDict [(''item_id'', PyStr ''Foo'')],
                                            PyDict [(''item_id'', PyStr ''Bar'')]]),
                        (s, PyStr s)]"
    by simp
  with q nq qs rs show ?thesis
    by blast
qed

theorem items4_result_witness:
  "get_items4 (Some ''fixedquery'')
     = (OK [(''items'', PyList [PyDict [(''item_id'', PyStr ''Foo'')],
                                PyDict [(''item_id'', PyStr ''Bar'')]]),
            (''fixedquery'', PyStr ''fixedquery'')] :: real response)
   \<and> getitem (read_items (Some ''fixedquery'') :: real py_dict) ''fixedquery''
       = Some (PyStr ''fixedquery'')"
proof -
  have v: "validate_q (Some ''fixedquery'') = Inr ''fixedquery''"
    by (simp add: validate_q_accepts)
  have g: "get_items4 (Some ''fixedquery'')
     = (OK [(''items'', PyList [PyDict [(''item_id'', PyStr ''Foo'')],
                                PyDict [(''item_id'', PyStr ''Bar'')]]),
            (''fixedquery'', PyStr ''fixedquery'')] :: real response)"
    by (simp add: get_items4_def v read_items_value)
  from items4_result [OF g] g show ?thesis
    by (simp add: read_items_sets_q)
qed

text \<open>
  C7, as claimed, fails: a body in which \<^verbatim>\<open>name\<close> and \<^verbatim>\<open>price\<close> are present with the
  right types is rejected when the value of \<^verbatim>\<open>tax\<close> does not convert to a float
  (\<^verbatim>\<open>{"name": "Foo", "price": 10.0, "tax": []}\<close>); the error names \<^verbatim>\<open>tax\<close>.
\<close>

theorem Item_ill_typed_tax_rejected:
  "name_in \<lparr>name_in = Value ''Foo'', description_in = Absent, price_in = Value (10 :: real),
            tax_in = Invalid\<rparr> = Value ''Foo''
   \<and> price_in \<lparr>name_in = Value ''Foo'', description_in = Absent, price_in = Value (10 :: real),
               tax_in = Invalid\<rparr> = Value 10
   \<and> validate_Item \<lparr>name_in = Value ''Foo'', description_in = Absent, price_in = Value (10 :: real),
                    tax_in = Invalid\<rparr> = Inl [([''body'', ''tax''], type_error_float)]"
  by (simp add: validate_Item_def required_def optional_def errors_def)

text \<open>
  C7, amended. A body is accepted as an Item exactly when \<^verbatim>\<open>name\<close> is present with a
  value that converts to text, \<^verbatim>\<open>price\<close> is present with a value that converts to a
  number, and each of \<^verbatim>\<open>description\<close> and \<^verbatim>\<open>tax\<close> is left out, null or a value that
  converts to its declared type. A body without \<^verbatim>\<open>name\<close>, or without \<^verbatim>\<open>price\<close>, is
  rejected with an error whose location is that field.
\<close>

theorem Item_accepted_iff:
  "((\<exists>item. validate_Item b = Inr item)
      \<longleftrightarrow> (\<exists>n. name_in b = Value n) \<and> (\<exists>p. price_in b = Value p)
          \<and> description_in b \<noteq> Invalid \<and> tax_in b \<noteq> Invalid)
   \<and> (name_in b = Absent \<longrightarrow>
        (\<exists>errs. validate_Item b = Inl errs \<and> ([''body'', ''name''], missing) \<in> set errs))
   \<and> (price_in b = Absent \<longrightarrow>
        (\<exists>errs. validate_Item b = Inl errs \<and> ([''body'', ''price''], missing) \<in> set errs))"
proof -
  have "name_in b = Absent \<longrightarrow>
        (\<exists>errs. validate_Item b = Inl errs \<and> ([''body'', ''name''], missing) \<in> set errs)"
    by (simp add: validate_Item_def required_def errors_def)
  moreover have "price_in b = Absent \<longrightarrow>
        (\<exists>errs. validate_Item b = Inl errs \<and> ([''body'', ''price''], missing) \<in> set errs)"
    by (cases "name_in b"; cases "description_in b"; cases "tax_in b")
       (simp_all add: validate_Item_def required_def optional_def errors_def)
  moreover have "(\<exists>item. validate_Item b = Inr item)
      \<longleftrightarrow> (\<exists>n. name_in b = Value n) \<and> (\<exists>p. price_in b = Value p)
          \<and> description_in b \<noteq> Invalid \<and> tax_in b \<noteq> Invalid"
    by (auto simp: validate_Item_Inr)
  ultimately show ?thesis
    by blast
qed

theorem Item_accepted_iff_witness:
  "(\<exists>item. validate_Item \<lparr>name_in = Value ''Foo'', description_in = Absent,
                           price_in = Value (10 :: real), tax_in = Null\<rparr> = Inr item)
   \<and> validate_Item \<lparr>name_in = Absent, description_in = Value ''d'',
                    price_in = Absent, tax_in = Value (1 :: real)\<rparr>
       = Inl [([''body'', ''name''], missing), ([''body'', ''price''], missing)]"
  using Item_accepted_iff
    [of "\<lparr>name_in = Value ''Foo'', description_in = Absent,
           price_in = Value (10 :: real), tax_in = Null\<rparr>"]
    Item_accepted_iff
    [of "\<lparr>name_in = Absent, description_in = Value ''d'',
           price_in = Absent, tax_in = Value (1 :: real)\<rparr>"]
  by (simp add: validate_Item_def required_def optional_def errors_def)

section \<open>Facts about the heap programs\<close>

text \<open>Each handler leaves the objects it finds as they are, adds one object, and
  returns it with the contents that the handler computes as a function.\<close>

lemma create_item_items1_heap_eq:
  "create_item_items1_heap item h =
     (case create_item_items1 item of
        Inl e \<Rightarrow> (Inl e, h @ [dict item])
      | Inr r \<Rightarrow> (Inr (length h), h @ [r]))"
  by (simp add: create_item_items1_heap_def create_item_items1_def new_dict_def update_at_def
      split: option.splits)

lemma create_item_items2_heap_eq:
  "create_item_items2_heap item_id item h = (length h, h @ [create_item_items2 item_id item])"
  by (simp add: create_item_items2_heap_def create_item_items2_def new_dict_def)

lemma create_item_items3_heap_eq:
  "create_item_items3_heap item_id item q h =
     (length h, h @ [create_item_items3 item_id item q])"
  by (simp add: create_item_items3_heap_def create_item_items3_def new_dict_def update_at_def
      split: option.splits)

lemma read_items_heap_eq: "read_items_heap q h = (length h, h @ [read_items q])"
  by (simp add: read_items_heap_def read_items_def new_dict_def update_at_def
      split: option.splits)

lemma serve_eq: "\<exists>new. serve req h = (respond req, h @ new)"
proof (cases req)
  case (PostItems1 b)
  then show ?thesis
    by (simp add: serve_def respond_def post_items1_def create_item_items1_heap_eq
        split: sum.splits)
next
  case (PutItems2 item_id b)
  then show ?thesis
    by (simp add: serve_def respond_def put_items2_def create_item_items2_heap_eq
        split: sum.splits)
next
  case (PutItems3 item_id b q)
  then show ?thesis
    by (simp add: serve_def respond_def put_items3_def create_item_items3_heap_eq
        split: sum.splits)
next
  case (GetItems4 q)
  then show ?thesis
    by (simp add: serve_def respond_def get_items4_def read_items_heap_eq split: sum.splits)
qed

lemma serve_all_eq: "\<exists>new. serve_all reqs h = (map respond reqs, h @ new)"
proof (induction reqs arbitrary: h)
  case Nil
  then show ?case by simp
next
  case (Cons req reqs)
  obtain n1 where s: "serve req h = (respond req, h @ n1)"
    using serve_eq by blast
  obtain n2 where "serve_all reqs (h @ n1) = (map respond reqs, (h @ n1) @ n2)"
    using Cons.IH by blast
  with s show ?case by simp
qed

text \<open>
  C8. Every route is deterministic and stateless. Served on any two heaps, whatever
  was served before, the same request gets the same response, which is a function
  of the request alone; serving a request changes no object that was there before
  (the heap afterwards is the heap before, followed by new objects); and in any
  sequence of requests each response is that function of its own request, so equal
  requests get equal responses.
\<close>

theorem handlers_deterministic_stateless:
  "fst (serve req h) = fst (serve req h')
   \<and> fst (serve req h) = respond req
   \<and> take (length h) (snd (serve req h)) = h
   \<and> fst (serve_all reqs h) = map respond reqs
   \<and> take (length h) (snd (serve_all reqs h)) = h"
proof -
  obtain n where a: "serve req h = (respond req, h @ n)"
    using serve_eq by blast
  obtain n' where b: "serve req h' = (respond req, h' @ n')"
    using serve_eq by blast
  obtain m where c: "serve_all reqs h = (map respond reqs, h @ m)"
    using serve_all_eq by blast
  from a b c show ?thesis
    by simp
qed

theorem handlers_deterministic_stateless_witness:
  "fst (serve_all [GetItems4 (Some ''fixedquery''),
                   PostItems1 \<lparr>name_in = Value ''Foo'', description_in = Absent,
                               price_in = Value (10 :: real), tax_in = Value (3 / 2)\<rparr>,
                   GetItems4 (Some ''fixedquery'')] [])
     = [OK [(''items'', PyList [PyDict [(''item_id'', PyStr ''Foo'')],
                                PyDict [(''item_id'', PyStr ''Bar'')]]),
            (''fixedquery'', PyStr ''fixedquery'')],
        OK [(''name'', PyStr ''Foo''), (''description'', PyNone), (''price'', PyFloat 10),
            (''tax'', PyFloat (3 / 2)), (''price_with_tax'', PyFloat (23 / 2))],
        OK [(''items'', PyList [PyDict [(''item_id'', PyStr ''Foo'')],
                                PyDict [(''item_id'', PyStr ''Bar'')]]),
            (''fixedquery'', PyStr ''fixedquery'')]]"
proof -
  have v: "validate_q (Some ''fixedquery'') = Inr ''fixedquery''"
    by (simp add: validate_q_accepts)
  have g: "respond (GetItems4 (Some ''fixedquery'') :: real request)
      = OK [(''items'', PyList [PyDict [(''item_id'', PyStr ''Foo'')],
                                PyDict [(''item_id'', PyStr ''Bar'')]]),
            (''fixedquery'', PyStr ''fixedquery'')]"
    by (simp add: respond_def get_items4_def v read_items_value)
  have p: "respond (PostItems1 \<lparr>name_in = Value ''Foo'', description_in = Absent,
                               price_in = Value (10 :: real), tax_in = Value (3 / 2)\<rparr>)
      = OK [(''name'', PyStr ''Foo''), (''description'', PyNone), (''price'', PyFloat 10),
            (''tax'', PyFloat (3 / 2)), (''price_with_tax'', PyFloat (23 / 2))]"
    by (simp add: respond_def post_items1_def validate_Item_def required_def optional_def
        create_item_items1_def display_def dict_def)
  from handlers_deterministic_stateless
    [of "GetItems4 (Some ''fixedquery'')" "[]" "[]"
        "[GetItems4 (Some ''fixedquery''),
          PostItems1 \<lparr>name_in = Value ''Foo'', description_in = Absent,
                      price_in = Value (10 :: real), tax_in = Value (3 / 2)\<rparr>,
          GetItems4 (Some ''fixedquery'')]"]
  show ?thesis
    by (simp add: g p)
qed

end
